theory Spec2Isabelle
  imports Complex_Main "HOL-Library.Multiset"
begin

section \<open>Data model\<close>

text \<open>
  Exceptions of the Python code, as values. \<open>IndexError\<close>, \<open>ValueError\<close>,
  \<open>AssertionError\<close> and \<open>ZeroDivisionError\<close> are what the interpreter raises for a
  list index out of range, \<open>min\<close>/\<open>max\<close> of an empty sequence, a failed \<open>assert\<close> and a
  division by zero. \<open>ValidationError\<close> and \<open>PreconditionError\<close> are named by the
  specification only: no source function raises them.
\<close>

datatype error =
    IndexError
  | ValueError
  | AssertionError
  | ZeroDivisionError
  | ValidationError
  | PreconditionError

text \<open>\<open>fitz.Rect\<close>: an axis-aligned box; coordinates are read as real numbers.\<close>

record Rect =
  x0 :: real
  y0 :: real
  x1 :: real
  y1 :: real


text \<open>
  \<open>TextLine\<close> (stratigraphy.util.line): only its bounding rectangle is read by the
  functions below.
\<close>

record TextLine =
  rect :: Rect

text \<open>
  \<open>TextBlock\<close> (stratigraphy.util.textblock): an ordered sequence of lines and the flag
  \<open>is_terminated_by_line\<close>. The attribute \<open>line_count\<close> is the number of lines.
\<close>

record TextBlock =
  lines :: "TextLine list"
  is_terminated_by_line :: bool

definition line_count :: "TextBlock \<Rightarrow> nat" where
  "line_count b = length (lines b)"

text \<open>
  Modelled from the spec: the constructor \<open>TextBlock(lines)\<close> of
  stratigraphy.util.textblock, which is not among the source files. A block is an
  ordered sequence of lines; a block built from a list of lines holds exactly these
  lines and is not flagged as terminated by a ruling line.
\<close>

definition TextBlock_init :: "TextLine list \<Rightarrow> TextBlock" where
  "TextBlock_init ls = \<lparr>lines = ls, is_terminated_by_line = False\<rparr>"

text \<open>
  Modelled from the spec: \<open>TextBlock.concatenate\<close>, not among the source files. Merging
  block \<open>other\<close> into \<open>self\<close> gives the block of the lines of \<open>self\<close> followed by the
  lines of \<open>other\<close>.
\<close>

definition concatenate :: "TextBlock \<Rightarrow> TextBlock \<Rightarrow> TextBlock" where
  "concatenate self other = TextBlock_init (lines self @ lines other)"

text \<open>
  \<open>DepthColumn\<close> (stratigraphy.util.depthcolumn) is produced outside the source files.
  The functions below call its methods \<open>rect()\<close> and \<open>noise_count(all_words)\<close>, which
  are fields here; the type \<open>'w\<close> is the type of the words.
\<close>

record 'w DepthColumn =
  column_rect :: Rect
  noise_count :: "'w list \<Rightarrow> nat"

text \<open>
  \<open>DepthColumnEntry\<close>: \<open>AnnotatedDepthColumnEntry\<close> sets the rectangle and the page
  number to \<open>None\<close>.
\<close>

record DepthColumnEntry =
  entry_rect :: "Rect option"
  entry_value :: real
  page_number :: "int option"

record LayerDepthColumnEntry =
  layer_start :: DepthColumnEntry
  layer_end :: DepthColumnEntry

text \<open>A pairing of a depth interval with a text block, the dictionary
  \<open>{"depth_interval": ..., "block": ...}\<close>.\<close>

record 'i Group =
  depth_interval :: 'i
  block :: TextBlock

text \<open>\<open>Metrics\<close> (stratigraphy.evaluation): the three properties read by
  \<open>DatasetMetrics\<close>.\<close>

record Metrics =
  f1 :: real
  precision :: real
  recall :: real

text \<open>\<open>DatasetMetrics.metrics\<close>: a dictionary from file names to metrics, in insertion
  order.\<close>

record DatasetMetrics =
  metrics :: "(string \<times> Metrics) list"


section \<open>Python primitives\<close>

text \<open>\<open>xs[i]\<close>: negative indices count from the end, out of range raises.\<close>

definition py_index :: "'a list \<Rightarrow> int \<Rightarrow> error + 'a" where
  "py_index xs i =
     (if 0 \<le> i \<and> i < int (length xs) then Inr (xs ! nat i)
      else if i < 0 \<and> - int (length xs) \<le> i then Inr (xs ! nat (int (length xs) + i))
      else Inl IndexError)"

text \<open>\<open>xs[:k]\<close>: a negative \<open>k\<close> drops \<open>-k\<close> elements from the end.\<close>

definition py_slice_to :: "'a list \<Rightarrow> int \<Rightarrow> 'a list" where
  "py_slice_to xs k = (if k < 0 then take (nat (int (length xs) + k)) xs else take (nat k) xs)"



text \<open>\<open>a / b\<close> on numbers raises \<open>ZeroDivisionError\<close> when \<open>b\<close> is zero.\<close>

definition py_truediv :: "real \<Rightarrow> real \<Rightarrow> error + real" where
  "py_truediv a b = (if b = 0 then Inl ZeroDivisionError else Inr (a / b))"


section \<open>depthcolumnentry.py\<close>

text \<open>\<open>LayerDepthColumnEntry.__init__\<close>: the two fields are assigned, then the
  \<open>assert\<close> on the page numbers runs.\<close>

definition LayerDepthColumnEntry_init ::
  "DepthColumnEntry \<Rightarrow> DepthColumnEntry \<Rightarrow> error + LayerDepthColumnEntry" where
  "LayerDepthColumnEntry_init start_entry end_entry =
     (if page_number start_entry = page_number end_entry
      then Inr \<lparr>layer_start = start_entry, layer_end = end_entry\<rparr>
      else Inl AssertionError)"


section \<open>metrics.py\<close>

definition macro_f1 :: "DatasetMetrics \<Rightarrow> error + real" where
  "macro_f1 self =
     (if metrics self \<noteq> []
      then py_truediv (sum_list (map (\<lambda>(filename, metric). f1 metric) (metrics self)))
             (real (length (metrics self)))
      else Inr 0)"

definition macro_precision :: "DatasetMetrics \<Rightarrow> error + real" where
  "macro_precision self =
     (if metrics self \<noteq> []
      then py_truediv (sum_list (map (\<lambda>(filename, metric). precision metric) (metrics self)))
             (real (length (metrics self)))
      else Inr 0)"

definition macro_recall :: "DatasetMetrics \<Rightarrow> error + real" where
  "macro_recall self =
     (if metrics self \<noteq> []
      then py_truediv (sum_list (map (\<lambda>(filename, metric). recall metric) (metrics self)))
             (real (length (metrics self)))
      else Inr 0)"


section \<open>main.py: scoring of a column and a region\<close>

text \<open>\<open>score_column_match\<close>; \<open>all_words\<close> defaults to \<open>None\<close>, and \<open>if all_words\<close> is
  false for \<open>None\<close> and for the empty list.\<close>

definition score_column_match :: "'w DepthColumn \<Rightarrow> Rect \<Rightarrow> 'w list option \<Rightarrow> real" where
  "score_column_match depth_column material_description_rect all_words =
     (let r = column_rect depth_column;
          top = y0 r;
          bottom = y1 r;
          right = x1 r;
          distance = \<bar>top - y0 material_description_rect\<bar>
                   + \<bar>bottom - y1 material_description_rect\<bar>
                   + \<bar>right - x0 material_description_rect\<bar>;
          height = bottom - top;
          n = (case all_words of
                 None \<Rightarrow> 0
               | Some [] \<Rightarrow> 0
               | Some (w # ws) \<Rightarrow> noise_count depth_column (w # ws))
      in (height - distance) * 0.8 ^ n)"

text \<open>The score as the specification words it, for comparison with the code: the
  edges of the two rectangles, the distance, the height and the noise.\<close>

definition spec_top :: "Rect \<Rightarrow> real" where "spec_top r = y0 r"
definition spec_bottom :: "Rect \<Rightarrow> real" where "spec_bottom r = y1 r"
definition spec_left :: "Rect \<Rightarrow> real" where "spec_left r = x0 r"
definition spec_right :: "Rect \<Rightarrow> real" where "spec_right r = x1 r"

definition spec_distance :: "'w DepthColumn \<Rightarrow> Rect \<Rightarrow> real" where
  "spec_distance column region =
     \<bar>spec_top (column_rect column) - spec_top region\<bar>
   + \<bar>spec_bottom (column_rect column) - spec_bottom region\<bar>
   + \<bar>spec_right (column_rect column) - spec_left region\<bar>"

definition spec_height :: "'w DepthColumn \<Rightarrow> real" where
  "spec_height column = spec_bottom (column_rect column) - spec_top (column_rect column)"

definition spec_noise :: "'w DepthColumn \<Rightarrow> 'w list option \<Rightarrow> nat" where
  "spec_noise column words =
     (if words = None \<or> words = Some [] then 0 else noise_count column (the words))"

definition spec_score :: "'w DepthColumn \<Rightarrow> Rect \<Rightarrow> 'w list option \<Rightarrow> real" where
  "spec_score column region words =
     (spec_height column - spec_distance column region) * (8 / 10) ^ spec_noise column words"


section \<open>main.py: removal of conflicting pairs in process\_page\<close>

text \<open>
  Lines 93 to 102 of \<open>process_page\<close>. \<open>fitz.Rect.intersects\<close> is library code and is a
  parameter. The list sort of Python is stable, as \<open>sort_key\<close> is.
\<close>

type_synonym 'w pair = "'w DepthColumn \<times> Rect"

definition sort_pairs :: "'w list \<Rightarrow> 'w pair list \<Rightarrow> 'w pair list" where
  "sort_pairs words pairs =
     sort_key (\<lambda>pair. score_column_match (fst pair) (snd pair) (Some words)) pairs"

text \<open>The double loop that fills \<open>to_delete\<close>: index \<open>i\<close> is appended once for every
  later pair whose region intersects the region of pair \<open>i\<close>.\<close>

fun to_delete_loop :: "(Rect \<Rightarrow> Rect \<Rightarrow> bool) \<Rightarrow> nat \<Rightarrow> 'w pair list \<Rightarrow> nat list" where
  "to_delete_loop intersects i [] = []"
| "to_delete_loop intersects i (p # later) =
     map (\<lambda>q. i) (filter (\<lambda>q. intersects (snd p) (snd q)) later)
     @ to_delete_loop intersects (Suc i) later"

definition filtered_pairs ::
  "(Rect \<Rightarrow> Rect \<Rightarrow> bool) \<Rightarrow> 'w list \<Rightarrow> 'w pair list \<Rightarrow> 'w pair list" where
  "filtered_pairs intersects words pairs =
     (let sorted_pairs = sort_pairs words pairs;
          to_delete = to_delete_loop intersects 0 sorted_pairs
      in map snd (filter (\<lambda>(index, item). index \<notin> set to_delete)
                    (enumerate 0 sorted_pairs)))"


section \<open>main.py: splitting blocks\<close>

text \<open>
  The state of the loops of \<open>split_blocks_by_textline_length\<close>: \<open>split_blocks\<close>,
  \<open>current_block_lines\<close> and \<open>cutoff_values\<close>.
\<close>

type_synonym split_state = "TextBlock list \<times> TextLine list \<times> real list"

text \<open>The inner loop over the lines of one block. A line is the last one of its block
  (\<open>line_index = line_count - 1\<close>) exactly when no line follows it.\<close>

fun split_lines :: "TextLine list \<Rightarrow> split_state \<Rightarrow> split_state" where
  "split_lines [] s = s"
| "split_lines (line # rest) (split_blocks, current_block_lines, cutoff_values) =
     (if rest \<noteq> [] \<and> x1 (rect line) \<in> set cutoff_values
      then split_lines rest
             (split_blocks @ [TextBlock_init (current_block_lines @ [line])],
              [],
              remove1 (x1 (rect line)) cutoff_values)
      else split_lines rest (split_blocks, current_block_lines @ [line], cutoff_values))"

text \<open>The body of the outer loop for one block: the inner loop, the flush of the lines
  collected so far, and the flag of the last block emitted (\<open>split_blocks[-1]\<close>, which
  raises \<open>IndexError\<close> when nothing was emitted yet).\<close>

definition split_block_step :: "TextBlock \<Rightarrow> split_state \<Rightarrow> error + split_state" where
  "split_block_step b s =
     (case split_lines (lines b) s of
        (split_blocks, current_block_lines, cutoff_values) \<Rightarrow>
          (let flushed = (if current_block_lines \<noteq> []
                          then split_blocks @ [TextBlock_init current_block_lines]
                          else split_blocks)
           in if is_terminated_by_line b
              then (if flushed = [] then Inl IndexError
                    else Inr (butlast flushed @ [(last flushed)\<lparr>is_terminated_by_line := True\<rparr>],
                              [], cutoff_values))
              else Inr (flushed, [], cutoff_values)))"

fun split_blocks_loop :: "TextBlock list \<Rightarrow> split_state \<Rightarrow> error + split_state" where
  "split_blocks_loop [] s = Inr s"
| "split_blocks_loop (b # bs) s =
     (case split_block_step b s of
        Inl e \<Rightarrow> Inl e
      | Inr s' \<Rightarrow> split_blocks_loop bs s')"

definition line_lengths :: "TextBlock list \<Rightarrow> real list" where
  "line_lengths blocks = sort (concat (map (\<lambda>b. map (\<lambda>l. x1 (rect l)) (butlast (lines b))) blocks))"

definition split_blocks_by_textline_length :: "TextBlock list \<Rightarrow> int \<Rightarrow> error + TextBlock list" where
  "split_blocks_by_textline_length blocks target_split_count =
     (if int (length (line_lengths blocks)) \<le> target_split_count
      then Inr (map (\<lambda>l. TextBlock_init [l]) (concat (map lines blocks)))
      else (case split_blocks_loop blocks
                   ([], [], py_slice_to (line_lengths blocks) target_split_count) of
              Inl e \<Rightarrow> Inl e
            | Inr (split_blocks, current_block_lines, cutoff_values) \<Rightarrow> Inr split_blocks))"


section \<open>main.py: merging blocks\<close>

text \<open>
  \<open>block_distance\<close> (stratigraphy.util.textblock) is not among the source files and is
  a parameter \<open>bd\<close>. The loop runs over the pairs of neighbours; its state is
  \<open>merged_count\<close>, \<open>merged_blocks\<close> and \<open>current_merged_block\<close>.
\<close>

type_synonym merge_state = "int \<times> TextBlock list \<times> TextBlock"

fun merge_loop ::
  "(TextBlock \<Rightarrow> TextBlock \<Rightarrow> real) \<Rightarrow> real \<Rightarrow> int \<Rightarrow> TextBlock \<Rightarrow> TextBlock list
     \<Rightarrow> merge_state \<Rightarrow> merge_state" where
  "merge_loop bd cutoff target_merge_count prev [] s = s"
| "merge_loop bd cutoff target_merge_count prev (new_block # rest)
       (merged_count, merged_blocks, current_merged_block) =
     (if merged_count < target_merge_count \<and> bd prev new_block \<le> cutoff
      then merge_loop bd cutoff target_merge_count new_block rest
             (merged_count + 1, merged_blocks, concatenate current_merged_block new_block)
      else merge_loop bd cutoff target_merge_count new_block rest
             (merged_count, merged_blocks @ [current_merged_block], new_block))"

definition distances :: "(TextBlock \<Rightarrow> TextBlock \<Rightarrow> real) \<Rightarrow> TextBlock list \<Rightarrow> real list" where
  "distances bd blocks = map (\<lambda>(a, b). bd a b) (zip blocks (tl blocks))"

text \<open>The function up to the end of its loop: the cutoff, \<open>blocks[0]\<close> and the loop.\<close>

definition merge_run ::
  "(TextBlock \<Rightarrow> TextBlock \<Rightarrow> real) \<Rightarrow> TextBlock list \<Rightarrow> int \<Rightarrow> error + merge_state" where
  "merge_run bd blocks target_merge_count =
     (case py_index (sort (distances bd blocks)) (target_merge_count - 1) of
        Inl e \<Rightarrow> Inl e
      | Inr cutoff \<Rightarrow>
          (case blocks of
             [] \<Rightarrow> Inl IndexError
           | first # rest \<Rightarrow>
               Inr (merge_loop bd cutoff target_merge_count first rest (0, [], first))))"

text \<open>After the loop the trailing block is appended only if it has a line.\<close>

definition merge_blocks_by_vertical_spacing ::
  "(TextBlock \<Rightarrow> TextBlock \<Rightarrow> real) \<Rightarrow> TextBlock list \<Rightarrow> int \<Rightarrow> error + TextBlock list" where
  "merge_blocks_by_vertical_spacing bd blocks target_merge_count =
     (case merge_run bd blocks target_merge_count of
        Inl e \<Rightarrow> Inl e
      | Inr (merged_count, merged_blocks, current_merged_block) \<Rightarrow>
          Inr (if lines current_merged_block \<noteq> []
               then merged_blocks @ [current_merged_block]
               else merged_blocks))"


section \<open>main.py: transform\_groups\<close>

definition transform_groups ::
  "(TextBlock \<Rightarrow> TextBlock \<Rightarrow> real) \<Rightarrow> 'i list \<Rightarrow> TextBlock list \<Rightarrow> error + 'i Group list" where
  "transform_groups bd depth_intervals blocks =
     (if length depth_intervals = 0 then Inr []
      else if length depth_intervals = 1
      then Inr [\<lparr>depth_interval = depth_intervals ! 0,
                 block = TextBlock_init (concat (map lines blocks))\<rparr>]
      else
        (case (if length blocks < length depth_intervals
               then split_blocks_by_textline_length blocks
                      (int (length depth_intervals) - int (length blocks))
               else Inr blocks) of
           Inl e \<Rightarrow> Inl e
         | Inr blocks1 \<Rightarrow>
             (case (if length blocks1 > length depth_intervals
                    then merge_blocks_by_vertical_spacing bd blocks1
                           (int (length blocks1) - int (length depth_intervals))
                    else Inr blocks1) of
                Inl e \<Rightarrow> Inl e
              | Inr blocks2 \<Rightarrow>
                  Inr (map (\<lambda>(d, b). \<lparr>depth_interval = d, block = b\<rparr>)
                         (zip depth_intervals blocks2)))))"


section \<open>util.py: horizontal overlap\<close>




section \<open>main.py: one clustering step of find\_material\_description\_column\<close>






section \<open>main.py: the bounds of one cluster in find\_material\_description\_column\<close>




section \<open>The score of a column and a region\<close>

lemma score_column_match_unfold:
  "score_column_match column region words
     = (spec_height column - spec_distance column region) * 0.8 ^ spec_noise column words"
  by (cases words; cases "the words")
     (simp_all add: score_column_match_def spec_height_def spec_distance_def
        spec_noise_def spec_top_def spec_bottom_def spec_left_def spec_right_def Let_def)

text \<open>
  Claim C6. For every depth column, region rectangle and word list, the value of
  \<open>score_column_match\<close> is \<open>(height - distance) * 0.8 ^ noise\<close>, where the distance
  is the sum of the three absolute differences of the edges (top with top, bottom with
  bottom, right edge of the column with left edge of the region), the height is bottom
  minus top of the column, and the noise is the noise count of the column over the
  words, or 0 when no words are supplied.
\<close>

theorem score_column_match_formula:
  "score_column_match column region words = spec_score column region words"
  by (simp add: score_column_match_unfold spec_score_def)





section \<open>Removal of conflicting pairs\<close>

lemma sort_pairs_two:
  assumes "score_column_match (fst p) (snd p) (Some words)
           < score_column_match (fst q) (snd q) (Some words)"
  shows "sort_pairs words [p, q] = [p, q]" and "sort_pairs words [q, p] = [p, q]"
  using assms by (simp_all add: sort_pairs_def)

text \<open>
  Claim C4. When the pairing step gives exactly two pairs, in either order, whose
  scores differ and whose regions intersect, the filtered list holds the pair of the
  higher score and not the pair of the lower score.
\<close>

theorem filtered_pairs_two_conflicting:
  assumes "score_column_match (fst p) (snd p) (Some words)
           < score_column_match (fst q) (snd q) (Some words)"
    and "intersects (snd p) (snd q)"
    and "pairs = [p, q] \<or> pairs = [q, p]"
  shows "filtered_pairs intersects words pairs = [q]
         \<and> q \<in> set (filtered_pairs intersects words pairs)
         \<and> p \<notin> set (filtered_pairs intersects words pairs)"
proof -
  have sorted: "sort_pairs words pairs = [p, q]"
    using assms(3) sort_pairs_two [OF assms(1)] by auto
  have "p \<noteq> q" using assms(1) by auto
  moreover have "filtered_pairs intersects words pairs = [q]"
    using assms(2) by (simp add: filtered_pairs_def sorted)
  ultimately show ?thesis by simp
qed

theorem filtered_pairs_two_conflicting_witness:
  "filtered_pairs (\<lambda>a b. x0 a < x1 b \<and> x0 b < x1 a) [(), ()]
     [(\<lparr>column_rect = \<lparr>x0 = 0, y0 = 0, x1 = 10, y1 = 100\<rparr>, noise_count = length\<rparr>,
       \<lparr>x0 = 10, y0 = 0, x1 = 60, y1 = 100\<rparr>),
      (\<lparr>column_rect = \<lparr>x0 = 0, y0 = 0, x1 = 10, y1 = 50\<rparr>, noise_count = length\<rparr>,
       \<lparr>x0 = 10, y0 = 0, x1 = 50, y1 = 50\<rparr>)]
   = [(\<lparr>column_rect = \<lparr>x0 = 0, y0 = 0, x1 = 10, y1 = 100\<rparr>, noise_count = length\<rparr>,
       \<lparr>x0 = 10, y0 = 0, x1 = 60, y1 = 100\<rparr>)]"
  using filtered_pairs_two_conflicting
    [of "(\<lparr>column_rect = \<lparr>x0 = 0, y0 = 0, x1 = 10, y1 = 50\<rparr>, noise_count = length\<rparr>,
          \<lparr>x0 = 10, y0 = 0, x1 = 50, y1 = 50\<rparr>)"
        "[(), ()]"
        "(\<lparr>column_rect = \<lparr>x0 = 0, y0 = 0, x1 = 10, y1 = 100\<rparr>, noise_count = length\<rparr>,
          \<lparr>x0 = 10, y0 = 0, x1 = 60, y1 = 100\<rparr>)"
        "\<lambda>a b. x0 a < x1 b \<and> x0 b < x1 a"
        "[(\<lparr>column_rect = \<lparr>x0 = 0, y0 = 0, x1 = 10, y1 = 100\<rparr>, noise_count = length\<rparr>,
           \<lparr>x0 = 10, y0 = 0, x1 = 60, y1 = 100\<rparr>),
          (\<lparr>column_rect = \<lparr>x0 = 0, y0 = 0, x1 = 10, y1 = 50\<rparr>, noise_count = length\<rparr>,
           \<lparr>x0 = 10, y0 = 0, x1 = 50, y1 = 50\<rparr>)]"]
  by (simp add: score_column_match_def Let_def power2_eq_square)


section \<open>Layer depth entries\<close>

text \<open>
  Claim C7, amended. Constructing a layer depth entry from a start and an end entry
  whose page numbers differ fails at construction with the \<open>AssertionError\<close> of the
  \<open>assert\<close> statement; when the page numbers are equal the construction succeeds and
  the entry holds the two given entries.
\<close>

theorem LayerDepthColumnEntry_init_pages:
  "(page_number start_entry \<noteq> page_number end_entry
      \<longrightarrow> LayerDepthColumnEntry_init start_entry end_entry = Inl AssertionError)
   \<and> (page_number start_entry = page_number end_entry
      \<longrightarrow> (\<exists>entry. LayerDepthColumnEntry_init start_entry end_entry = Inr entry
             \<and> layer_start entry = start_entry \<and> layer_end entry = end_entry))"
  by (simp add: LayerDepthColumnEntry_init_def)

theorem LayerDepthColumnEntry_init_pages_witness:
  "LayerDepthColumnEntry_init
      \<lparr>entry_rect = None, entry_value = 1, page_number = Some 1\<rparr>
      \<lparr>entry_rect = None, entry_value = 2, page_number = Some 2\<rparr> = Inl AssertionError
   \<and> (\<exists>entry. LayerDepthColumnEntry_init
         \<lparr>entry_rect = None, entry_value = 1, page_number = Some 3\<rparr>
         \<lparr>entry_rect = None, entry_value = 2, page_number = Some 3\<rparr> = Inr entry
        \<and> layer_start entry = \<lparr>entry_rect = None, entry_value = 1, page_number = Some 3\<rparr>
        \<and> layer_end entry = \<lparr>entry_rect = None, entry_value = 2, page_number = Some 3\<rparr>)"
  using LayerDepthColumnEntry_init_pages
      [of "\<lparr>entry_rect = None, entry_value = 1, page_number = Some 1\<rparr>"
          "\<lparr>entry_rect = None, entry_value = 2, page_number = Some 2\<rparr>"]
    LayerDepthColumnEntry_init_pages
      [of "\<lparr>entry_rect = None, entry_value = 1, page_number = Some 3\<rparr>"
          "\<lparr>entry_rect = None, entry_value = 2, page_number = Some 3\<rparr>"]
  by simp

text \<open>
  Claim C7 as stated fails: entries on pages 1 and 2 make the constructor raise
  \<open>AssertionError\<close>, which is not a \<open>ValidationError\<close>.
\<close>

theorem LayerDepthColumnEntry_init_counterexample:
  "LayerDepthColumnEntry_init
      \<lparr>entry_rect = None, entry_value = 1, page_number = Some 1\<rparr>
      \<lparr>entry_rect = None, entry_value = 2, page_number = Some 2\<rparr> = Inl AssertionError
   \<and> LayerDepthColumnEntry_init
      \<lparr>entry_rect = None, entry_value = 1, page_number = Some 1\<rparr>
      \<lparr>entry_rect = None, entry_value = 2, page_number = Some 2\<rparr> \<noteq> Inl ValidationError"
  by (simp add: LayerDepthColumnEntry_init_def)


section \<open>Macro averages\<close>

text \<open>
  Claim C10. With no recorded metrics, \<open>macro_f1\<close>, \<open>macro_precision\<close> and
  \<open>macro_recall\<close> return 0; and no call of the three divides by zero.
\<close>

theorem macro_averages_empty:
  "macro_f1 (self\<lparr>metrics := []\<rparr>) = Inr 0
   \<and> macro_precision (self\<lparr>metrics := []\<rparr>) = Inr 0
   \<and> macro_recall (self\<lparr>metrics := []\<rparr>) = Inr 0
   \<and> macro_f1 self \<noteq> Inl ZeroDivisionError
   \<and> macro_precision self \<noteq> Inl ZeroDivisionError
   \<and> macro_recall self \<noteq> Inl ZeroDivisionError"
  by (simp add: macro_f1_def macro_precision_def macro_recall_def py_truediv_def)


section \<open>The bounds of a cluster\<close>
















section \<open>One interval\<close>

text \<open>
  Claim C9. For exactly one depth interval and no text block, \<open>transform_groups\<close>
  returns one pair: the given interval with a block of zero lines.
\<close>

theorem transform_groups_one_interval_no_blocks:
  "transform_groups bd [interval] []
     = Inr [\<lparr>depth_interval = interval, block = TextBlock_init []\<rparr>]
   \<and> line_count (TextBlock_init []) = 0"
  by (simp add: transform_groups_def line_count_def TextBlock_init_def)


section \<open>Merging: the number of merges and of blocks\<close>

lemma filter_le_nth_sorted:
  fixes xs :: "real list"
  assumes "sorted xs" and "i < length xs"
  shows "Suc i \<le> length (filter (\<lambda>d. d \<le> xs ! i) xs)"
proof -
  have "\<forall>x \<in> set (take (Suc i) xs). x \<le> xs ! i"
  proof
    fix x assume "x \<in> set (take (Suc i) xs)"
    then obtain j where "j < Suc i" and "j < length xs" and "x = xs ! j"
      by (auto simp: in_set_conv_nth)
    then show "x \<le> xs ! i"
      using assms sorted_nth_mono [of xs j i] by simp
  qed
  then have "filter (\<lambda>d. d \<le> xs ! i) (take (Suc i) xs) = take (Suc i) xs"
    by simp
  moreover have "length (filter (\<lambda>d. d \<le> xs ! i) xs)
      = length (filter (\<lambda>d. d \<le> xs ! i) (take (Suc i) xs))
        + length (filter (\<lambda>d. d \<le> xs ! i) (drop (Suc i) xs))"
  proof -
    have "filter (\<lambda>d. d \<le> xs ! i) (take (Suc i) xs @ drop (Suc i) xs)
        = filter (\<lambda>d. d \<le> xs ! i) (take (Suc i) xs) @ filter (\<lambda>d. d \<le> xs ! i) (drop (Suc i) xs)"
      by (rule filter_append)
    then show ?thesis
      by (metis append_take_drop_id length_append)
  qed
  ultimately show ?thesis
    using assms(2) by simp
qed

lemma length_filter_sort:
  fixes xs :: "real list"
  shows "length (filter P (sort xs)) = length (filter P xs)"
proof -
  have "mset (filter P (sort xs)) = mset (filter P xs)"
    by simp
  then show ?thesis
    by (metis size_mset)
qed

lemma count_below_cutoff:
  fixes ds :: "real list"
  assumes "i < length ds"
  shows "Suc i \<le> length (filter (\<lambda>d. d \<le> sort ds ! i) ds)"
  using filter_le_nth_sorted [of "sort ds" i] assms
  by (simp add: length_filter_sort)

lemma distances_Cons:
  "distances bd (prev # new_block # rest) = bd prev new_block # distances bd (new_block # rest)"
  by (simp add: distances_def)

lemma length_distances: "length (distances bd blocks) = length blocks - 1"
  by (simp add: distances_def)

lemma merge_loop_state:
  assumes "merge_loop bd cutoff target prev rest (merged_count, merged_blocks, current)
           = (merged_count', merged_blocks', current')"
    and "merged_count \<le> target"
    and "\<exists>before. lines current = before @ lines prev"
  shows "merged_count' = min target (merged_count
            + int (length (filter (\<lambda>d. d \<le> cutoff) (distances bd (prev # rest)))))
       \<and> int (length merged_blocks')
            = int (length merged_blocks) + int (length rest) - (merged_count' - merged_count)
       \<and> (\<exists>before. lines current' = before @ lines (last (prev # rest)))"
  using assms
proof (induction rest arbitrary: prev merged_count merged_blocks current)
  case Nil
  then show ?case by (simp add: distances_def)
next
  case (Cons new_block rest)
  show ?case
  proof (cases "merged_count < target \<and> bd prev new_block \<le> cutoff")
    case True
    then have step: "merge_loop bd cutoff target new_block rest
        (merged_count + 1, merged_blocks, concatenate current new_block)
        = (merged_count', merged_blocks', current')"
      using Cons.prems(1) by simp
    have "\<exists>before. lines (concatenate current new_block) = before @ lines new_block"
      by (simp add: concatenate_def TextBlock_init_def)
    then show ?thesis
      using Cons.IH [OF step] True by (simp add: distances_Cons)
  next
    case False
    then have step: "merge_loop bd cutoff target new_block rest
        (merged_count, merged_blocks @ [current], new_block)
        = (merged_count', merged_blocks', current')"
      using Cons.prems(1) by auto
    have *: "\<exists>before. lines new_block = before @ lines new_block"
      by simp
    show ?thesis
    proof (cases "bd prev new_block \<le> cutoff")
      case True
      then have "merged_count = target" using False Cons.prems(2) by simp
      then show ?thesis
        using Cons.IH [OF step _ *] True by (simp add: distances_Cons)
    next
      case False
      then show ?thesis
        using Cons.IH [OF step Cons.prems(2) *] by (simp add: distances_Cons)
    qed
  qed
qed

lemma merge_run_result:
  assumes "2 \<le> length blocks" and "1 \<le> target" and "target \<le> int (length blocks) - 1"
  shows "\<exists>merged_blocks current merged.
           merge_run bd blocks target = Inr (target, merged_blocks, current)
         \<and> merge_blocks_by_vertical_spacing bd blocks target = Inr merged
         \<and> int (length merged)
             = (if lines current \<noteq> [] then int (length blocks) - target
                else int (length blocks) - target - 1)
         \<and> (lines (last blocks) \<noteq> [] \<longrightarrow> lines current \<noteq> [])"
proof -
  obtain first rest where blocks: "blocks = first # rest"
    using assms(1) by (cases blocks) auto
  define ds where "ds = distances bd blocks"
  have len_ds: "length ds = length blocks - 1"
    by (simp add: ds_def length_distances)
  have idx: "nat (target - 1) < length ds"
    using assms len_ds by linarith
  define cutoff where "cutoff = sort ds ! nat (target - 1)"
  have cut: "py_index (sort ds) (target - 1) = Inr cutoff"
    using assms idx by (simp add: py_index_def cutoff_def)
  obtain merged_count merged_blocks current where
    loop: "merge_loop bd cutoff target first rest (0, [], first)
           = (merged_count, merged_blocks, current)"
    by (cases "merge_loop bd cutoff target first rest (0, [], first)") auto
  have run: "merge_run bd blocks target = Inr (merged_count, merged_blocks, current)"
    using cut loop by (simp add: merge_run_def ds_def [symmetric] blocks [symmetric])
       (simp add: blocks)
  have "\<exists>before. lines first = before @ lines first"
    by simp
  from merge_loop_state [OF loop _ this] assms(2)
  have mc: "merged_count
            = min target (int (length (filter (\<lambda>d. d \<le> cutoff) ds)))"
    and mb: "int (length merged_blocks) = int (length rest) - merged_count"
    and cur: "\<exists>before. lines current = before @ lines (last blocks)"
    by (simp_all add: ds_def blocks)
  have "Suc (nat (target - 1)) \<le> length (filter (\<lambda>d. d \<le> cutoff) ds)"
    unfolding cutoff_def using count_below_cutoff [OF idx] .
  then have "target \<le> int (length (filter (\<lambda>d. d \<le> cutoff) ds))"
    using assms(2) by linarith
  then have mc_eq: "merged_count = target"
    using mc by simp
  have "int (length merged_blocks) = int (length blocks) - 1 - target"
    using mb mc_eq by (simp add: blocks)
  then show ?thesis
    using run mc_eq cur by (auto simp: merge_blocks_by_vertical_spacing_def)
qed

text \<open>
  Claim C2, amended. For \<open>m \<ge> 2\<close> blocks and \<open>1 \<le> target_merge_count \<le> m - 1\<close> the
  loop performs exactly \<open>target_merge_count\<close> merges and the function returns a list.
  The list has \<open>m - target_merge_count\<close> blocks when the trailing merged block has a
  line, which is so when the last input block has a line; it has one block less when
  the trailing merged block has no line, because that block is then not appended.
\<close>

theorem merge_blocks_by_vertical_spacing_count:
  assumes "2 \<le> length blocks" and "1 \<le> target" and "target \<le> int (length blocks) - 1"
  shows "\<exists>merged_blocks current merged.
           merge_run bd blocks target = Inr (target, merged_blocks, current)
         \<and> merge_blocks_by_vertical_spacing bd blocks target = Inr merged
         \<and> int (length merged)
             = (if lines current \<noteq> [] then int (length blocks) - target
                else int (length blocks) - target - 1)
         \<and> (lines (last blocks) \<noteq> [] \<longrightarrow> lines current \<noteq> [])"
  using assms by (rule merge_run_result)

theorem merge_blocks_by_vertical_spacing_count_witness:
  "\<exists>merged. merge_blocks_by_vertical_spacing (curry (real \<circ> length \<circ> lines \<circ> snd))
       [\<lparr>lines = [\<lparr>rect = \<lparr>x0 = 0, y0 = 0, x1 = 10, y1 = 1\<rparr>\<rparr>], is_terminated_by_line = False\<rparr>,
        \<lparr>lines = [\<lparr>rect = \<lparr>x0 = 0, y0 = 2, x1 = 10, y1 = 3\<rparr>\<rparr>,
                  \<lparr>rect = \<lparr>x0 = 0, y0 = 3, x1 = 10, y1 = 4\<rparr>\<rparr>], is_terminated_by_line = False\<rparr>,
        \<lparr>lines = [\<lparr>rect = \<lparr>x0 = 0, y0 = 5, x1 = 10, y1 = 6\<rparr>\<rparr>], is_terminated_by_line = False\<rparr>]
       1 = Inr merged
     \<and> length merged = 2"
  using merge_blocks_by_vertical_spacing_count
    [of "[\<lparr>lines = [\<lparr>rect = \<lparr>x0 = 0, y0 = 0, x1 = 10, y1 = 1\<rparr>\<rparr>], is_terminated_by_line = False\<rparr>,
        \<lparr>lines = [\<lparr>rect = \<lparr>x0 = 0, y0 = 2, x1 = 10, y1 = 3\<rparr>\<rparr>,
                  \<lparr>rect = \<lparr>x0 = 0, y0 = 3, x1 = 10, y1 = 4\<rparr>\<rparr>], is_terminated_by_line = False\<rparr>,
        \<lparr>lines = [\<lparr>rect = \<lparr>x0 = 0, y0 = 5, x1 = 10, y1 = 6\<rparr>\<rparr>], is_terminated_by_line = False\<rparr>]"
        1 "curry (real \<circ> length \<circ> lines \<circ> snd)"]
  by auto

text \<open>
  Claim C2 as stated fails. The distance of two blocks is taken to be the number of
  lines of the second one. Of three blocks, the first with one line and the other two
  with none, one merge is asked for: the loop merges the second block into the first
  (one merge), flushes the result, and leaves the third block, which has no line, as
  the trailing block that is not appended. The result has one block, not \<open>3 - 1 = 2\<close>.
\<close>

theorem merge_blocks_by_vertical_spacing_counterexample:
  "merge_run (curry (real \<circ> length \<circ> lines \<circ> snd))
       [\<lparr>lines = [\<lparr>rect = \<lparr>x0 = 0, y0 = 0, x1 = 10, y1 = 1\<rparr>\<rparr>], is_terminated_by_line = False\<rparr>,
        \<lparr>lines = [], is_terminated_by_line = False\<rparr>,
        \<lparr>lines = [], is_terminated_by_line = False\<rparr>]
       1
     = Inr (1, [\<lparr>lines = [\<lparr>rect = \<lparr>x0 = 0, y0 = 0, x1 = 10, y1 = 1\<rparr>\<rparr>], is_terminated_by_line = False\<rparr>],
            \<lparr>lines = [], is_terminated_by_line = False\<rparr>)
   \<and> merge_blocks_by_vertical_spacing (curry (real \<circ> length \<circ> lines \<circ> snd))
       [\<lparr>lines = [\<lparr>rect = \<lparr>x0 = 0, y0 = 0, x1 = 10, y1 = 1\<rparr>\<rparr>], is_terminated_by_line = False\<rparr>,
        \<lparr>lines = [], is_terminated_by_line = False\<rparr>,
        \<lparr>lines = [], is_terminated_by_line = False\<rparr>]
       1
     = Inr [\<lparr>lines = [\<lparr>rect = \<lparr>x0 = 0, y0 = 0, x1 = 10, y1 = 1\<rparr>\<rparr>], is_terminated_by_line = False\<rparr>]"
  by (simp add: merge_blocks_by_vertical_spacing_def merge_run_def distances_def py_index_def
      concatenate_def TextBlock_init_def)


section \<open>Splitting: the lines are kept\<close>

lemma mset_remove1_subset:
  fixes v :: real
  assumes "mset cv \<subseteq># add_mset v X"
  shows "mset (remove1 v cv) \<subseteq># X"
  using assms by (simp add: subset_eq_diff_conv)

lemma mset_subset_skip:
  fixes v :: real
  assumes "mset cv \<subseteq># add_mset v X" and "v \<notin> set cv"
  shows "mset cv \<subseteq># X"
  using assms
  by (metis Diff_eq_empty_iff_mset minus_add_mset_if_not_in_lhs set_mset_mset)


lemma split_lines_lines:
  "split_lines ls (sb, cur, cv) = (sb', cur', cv')
   \<Longrightarrow> concat (map lines sb') @ cur' = concat (map lines sb) @ cur @ ls"
proof (induction ls arbitrary: sb cur cv)
  case Nil
  then show ?case by simp
next
  case (Cons line rest)
  show ?case
  proof (cases "rest \<noteq> [] \<and> x1 (rect line) \<in> set cv")
    case True
    then have "split_lines rest (sb @ [TextBlock_init (cur @ [line])], [], remove1 (x1 (rect line)) cv)
               = (sb', cur', cv')"
      using Cons.prems by simp
    from Cons.IH [OF this] show ?thesis
      by (simp add: TextBlock_init_def)
  next
    case False
    then have "split_lines rest (sb, cur @ [line], cv) = (sb', cur', cv')"
      using Cons.prems by auto
    from Cons.IH [OF this] show ?thesis by simp
  qed
qed

lemma split_lines_count:
  "split_lines ls (sb, cur, cv) = (sb', cur', cv')
   \<Longrightarrow> length sb' + length cv' = length sb + length cv"
proof (induction ls arbitrary: sb cur cv)
  case Nil
  then show ?case by simp
next
  case (Cons line rest)
  show ?case
  proof (cases "rest \<noteq> [] \<and> x1 (rect line) \<in> set cv")
    case True
    then have "split_lines rest (sb @ [TextBlock_init (cur @ [line])], [], remove1 (x1 (rect line)) cv)
               = (sb', cur', cv')"
      using Cons.prems by simp
    moreover have "0 < length cv"
      using True by (cases cv) auto
    ultimately show ?thesis
      using Cons.IH [of "sb @ [TextBlock_init (cur @ [line])]" "[]" "remove1 (x1 (rect line)) cv"] True
      by (simp add: length_remove1)
  next
    case False
    then have "split_lines rest (sb, cur @ [line], cv) = (sb', cur', cv')"
      using Cons.prems by auto
    from Cons.IH [OF this] show ?thesis by simp
  qed
qed

lemma split_lines_current:
  "split_lines ls (sb, cur, cv) = (sb', cur', cv') \<Longrightarrow> ls \<noteq> [] \<Longrightarrow> cur' \<noteq> []"
proof (induction ls arbitrary: sb cur cv)
  case Nil
  then show ?case by simp
next
  case (Cons line rest)
  show ?case
  proof (cases "rest = []")
    case True
    then show ?thesis using Cons.prems by auto
  next
    case False
    show ?thesis
    proof (cases "x1 (rect line) \<in> set cv")
      case True
      then have "split_lines rest (sb @ [TextBlock_init (cur @ [line])], [], remove1 (x1 (rect line)) cv)
                 = (sb', cur', cv')"
        using Cons.prems False by simp
      from Cons.IH [OF this False] show ?thesis .
    next
      case notin: False
      then have "split_lines rest (sb, cur @ [line], cv) = (sb', cur', cv')"
        using Cons.prems by auto
      from Cons.IH [OF this False] show ?thesis .
    qed
  qed
qed

lemma split_lines_cutoffs:
  "split_lines ls (sb, cur, cv) = (sb', cur', cv')
   \<Longrightarrow> mset cv \<subseteq># mset (map (\<lambda>l. x1 (rect l)) (butlast ls)) + M
   \<Longrightarrow> mset cv' \<subseteq># M"
proof (induction ls arbitrary: sb cur cv)
  case Nil
  then show ?case by simp
next
  case (Cons line rest)
  show ?case
  proof (cases "rest = []")
    case True
    then show ?thesis using Cons.prems by auto
  next
    case False
    then have sub: "mset cv \<subseteq># add_mset (x1 (rect line))
                      (mset (map (\<lambda>l. x1 (rect l)) (butlast rest)) + M)"
      using Cons.prems(2) by simp
    show ?thesis
    proof (cases "x1 (rect line) \<in> set cv")
      case True
      then have "split_lines rest (sb @ [TextBlock_init (cur @ [line])], [], remove1 (x1 (rect line)) cv)
                 = (sb', cur', cv')"
        using Cons.prems False by simp
      from Cons.IH [OF this mset_remove1_subset [OF sub]] show ?thesis .
    next
      case notin: False
      then have "split_lines rest (sb, cur @ [line], cv) = (sb', cur', cv')"
        using Cons.prems by auto
      from Cons.IH [OF this mset_subset_skip [OF sub notin]] show ?thesis .
    qed
  qed
qed

lemma flag_last_lines:
  "flushed \<noteq> []
   \<Longrightarrow> map lines (butlast flushed @ [(last flushed)\<lparr>is_terminated_by_line := True\<rparr>])
       = map lines flushed"
proof -
  assume "flushed \<noteq> []"
  then have "map lines (butlast flushed @ [last flushed]) = map lines flushed"
    by simp
  then show ?thesis by simp
qed

lemma split_block_step_state:
  assumes "split_block_step b (sb, [], cv) = Inr (sb', cur', cv')"
  shows "cur' = []"
    and "concat (map lines sb') = concat (map lines sb) @ lines b"
    and "length sb' + length cv' = length sb + length cv + (if lines b = [] then 0 else 1)"
    and "mset cv \<subseteq># mset (map (\<lambda>l. x1 (rect l)) (butlast (lines b))) + M
         \<Longrightarrow> mset cv' \<subseteq># M"
proof -
  obtain sb1 cur1 cv1 where inner: "split_lines (lines b) (sb, [], cv) = (sb1, cur1, cv1)"
    by (cases "split_lines (lines b) (sb, [], cv)") auto
  define flushed where "flushed = (if cur1 \<noteq> [] then sb1 @ [TextBlock_init cur1] else sb1)"
  have res: "(if is_terminated_by_line b
              then (if flushed = [] then Inl IndexError
                    else Inr (butlast flushed @ [(last flushed)\<lparr>is_terminated_by_line := True\<rparr>],
                              [], cv1))
              else Inr (flushed, [], cv1)) = Inr (sb', cur', cv')"
    using assms unfolding split_block_step_def inner Let_def prod.case flushed_def .
  have ml: "map lines sb' = map lines flushed" and len: "length sb' = length flushed"
    and cv': "cv' = cv1" and cur': "cur' = []"
    using res flag_last_lines [of flushed] by (auto split: if_splits)
  show "cur' = []" by (rule cur')
  have "concat (map lines flushed) = concat (map lines sb1) @ cur1"
    by (simp add: flushed_def TextBlock_init_def)
  then show "concat (map lines sb') = concat (map lines sb) @ lines b"
    using split_lines_lines [OF inner] ml by simp
  have "cur1 \<noteq> [] \<longleftrightarrow> lines b \<noteq> []"
    using split_lines_current [OF inner] inner by (cases "lines b") auto
  then have "length flushed = length sb1 + (if lines b = [] then 0 else 1)"
    by (simp add: flushed_def)
  then show "length sb' + length cv' = length sb + length cv + (if lines b = [] then 0 else 1)"
    using split_lines_count [OF inner] len cv' by simp
  show "mset cv' \<subseteq># M"
    if "mset cv \<subseteq># mset (map (\<lambda>l. x1 (rect l)) (butlast (lines b))) + M"
    using split_lines_cutoffs [OF inner that] cv' by simp
qed

lemma split_block_step_error:
  assumes "split_block_step b (sb, [], cv) = Inl e"
  shows "e = IndexError \<and> lines b = [] \<and> is_terminated_by_line b \<and> sb = []"
proof -
  obtain sb1 cur1 cv1 where inner: "split_lines (lines b) (sb, [], cv) = (sb1, cur1, cv1)"
    by (cases "split_lines (lines b) (sb, [], cv)") auto
  have "e = IndexError \<and> is_terminated_by_line b \<and> cur1 = [] \<and> sb1 = []"
    using assms inner by (auto simp: split_block_step_def Let_def split: if_splits)
  moreover have "lines b = []" if "cur1 = []"
    using split_lines_current [OF inner] that by blast
  moreover have "sb = []" if "sb1 = []" and "cur1 = []" and "lines b = []"
    using inner that by simp
  ultimately show ?thesis by blast
qed

lemma split_blocks_loop_state:
  assumes "split_blocks_loop bs (sb, [], cv) = Inr (sb', cur', cv')"
  shows "concat (map lines sb') = concat (map lines sb) @ concat (map lines bs)
       \<and> length sb' + length cv'
           = length sb + length cv + length (filter (\<lambda>b. lines b \<noteq> []) bs)
       \<and> (mset cv \<subseteq># mset (concat (map (\<lambda>b. map (\<lambda>l. x1 (rect l)) (butlast (lines b))) bs)) + M
            \<longrightarrow> mset cv' \<subseteq># M)"
  using assms
proof (induction bs arbitrary: sb cv M)
  case Nil
  then show ?case by simp
next
  case (Cons b bs)
  obtain sb1 cur1 cv1 where step: "split_block_step b (sb, [], cv) = Inr (sb1, cur1, cv1)"
    using Cons.prems by (cases "split_block_step b (sb, [], cv)") auto
  have cur1: "cur1 = []"
    using split_block_step_state(1) [OF step] .
  then have rest: "split_blocks_loop bs (sb1, [], cv1) = Inr (sb', cur', cv')"
    using Cons.prems step by simp
  note ih = Cons.IH [OF rest, of M]
  have "mset cv1 \<subseteq># mset (concat (map (\<lambda>b. map (\<lambda>l. x1 (rect l)) (butlast (lines b))) bs)) + M"
    if "mset cv \<subseteq># mset (concat (map (\<lambda>b. map (\<lambda>l. x1 (rect l)) (butlast (lines b))) (b # bs))) + M"
    using split_block_step_state(4) [OF step,
        of "mset (concat (map (\<lambda>b. map (\<lambda>l. x1 (rect l)) (butlast (lines b))) bs)) + M"] that
    by (simp add: add.assoc)
  then show ?case
    using ih split_block_step_state(2,3) [OF step] by auto
qed

lemma split_blocks_loop_error:
  assumes "split_blocks_loop bs (sb, [], cv) = Inl e"
  shows "e = IndexError \<and> (\<exists>b \<in> set bs. lines b = [] \<and> is_terminated_by_line b)"
  using assms
proof (induction bs arbitrary: sb cv)
  case Nil
  then show ?case by simp
next
  case (Cons b bs)
  show ?case
  proof (cases "split_block_step b (sb, [], cv)")
    case (Inl e')
    then show ?thesis
      using Cons.prems split_block_step_error [OF Inl] by simp
  next
    case (Inr s1)
    obtain sb1 cur1 cv1 where s1: "s1 = (sb1, cur1, cv1)"
      by (cases s1) auto
    have "cur1 = []"
      using split_block_step_state(1) Inr s1 by blast
    then have "split_blocks_loop bs (sb1, [], cv1) = Inl e"
      using Cons.prems Inr s1 by simp
    from Cons.IH [OF this] show ?thesis by simp
  qed
qed

lemma sum_line_count: "sum_list (map line_count bs) = length (concat (map lines bs))"
  by (induction bs) (simp_all add: line_count_def)

lemma one_block_per_line: "concat (map lines (map (\<lambda>l. TextBlock_init [l]) ls)) = ls"
  by (induction ls) (simp_all add: TextBlock_init_def)

text \<open>
  Claim C3. For a list of blocks that is not empty and a target of at least 1, the
  blocks returned by \<open>split_blocks_by_textline_length\<close> have the same total number of
  lines as the input blocks, in the branch of one block per line and in the branch of
  the cutoff values; they even hold the same lines in the same order. The function
  returns unless an input block without lines is flagged as terminated by a line and
  nothing was emitted before it: then \<open>split_blocks[-1]\<close> raises \<open>IndexError\<close> and
  no blocks are returned.
\<close>

theorem split_blocks_by_textline_length_lines:
  assumes "blocks \<noteq> []" and "1 \<le> target_split_count"
  shows "case split_blocks_by_textline_length blocks target_split_count of
           Inr split_blocks \<Rightarrow>
             sum_list (map line_count split_blocks) = sum_list (map line_count blocks)
             \<and> concat (map lines split_blocks) = concat (map lines blocks)
         | Inl e \<Rightarrow>
             e = IndexError \<and> (\<exists>b \<in> set blocks. lines b = [] \<and> is_terminated_by_line b)"
proof (cases "int (length (line_lengths blocks)) \<le> target_split_count")
  case True
  have "split_blocks_by_textline_length blocks target_split_count
        = Inr (map (\<lambda>l. TextBlock_init [l]) (concat (map lines blocks)))"
    using True by (simp add: split_blocks_by_textline_length_def)
  then show ?thesis
    by (simp only: sum.case sum_line_count one_block_per_line)
next
  case False
  show ?thesis
  proof (cases "split_blocks_loop blocks
                  ([], [], py_slice_to (line_lengths blocks) target_split_count)")
    case (Inl e)
    then show ?thesis
      using False split_blocks_loop_error [OF Inl]
      by (simp add: split_blocks_by_textline_length_def)
  next
    case (Inr s)
    obtain sb cur cv where s: "s = (sb, cur, cv)"
      by (cases s) auto
    have "concat (map lines sb) = concat (map lines blocks)"
      using split_blocks_loop_state [of blocks "[]" _ sb cur cv] Inr s by simp
    then show ?thesis
      using False Inr s by (simp add: split_blocks_by_textline_length_def sum_line_count)
  qed
qed

theorem split_blocks_by_textline_length_lines_witness:
  "split_blocks_by_textline_length
       [\<lparr>lines = [\<lparr>rect = \<lparr>x0 = 0, y0 = 0, x1 = 10, y1 = 1\<rparr>\<rparr>,
                  \<lparr>rect = \<lparr>x0 = 0, y0 = 1, x1 = 20, y1 = 2\<rparr>\<rparr>,
                  \<lparr>rect = \<lparr>x0 = 0, y0 = 2, x1 = 30, y1 = 3\<rparr>\<rparr>,
                  \<lparr>rect = \<lparr>x0 = 0, y0 = 3, x1 = 40, y1 = 4\<rparr>\<rparr>,
                  \<lparr>rect = \<lparr>x0 = 0, y0 = 4, x1 = 50, y1 = 5\<rparr>\<rparr>],
          is_terminated_by_line = False\<rparr>]
       2
     = Inr [\<lparr>lines = [\<lparr>rect = \<lparr>x0 = 0, y0 = 0, x1 = 10, y1 = 1\<rparr>\<rparr>], is_terminated_by_line = False\<rparr>,
          \<lparr>lines = [\<lparr>rect = \<lparr>x0 = 0, y0 = 1, x1 = 20, y1 = 2\<rparr>\<rparr>], is_terminated_by_line = False\<rparr>,
          \<lparr>lines = [\<lparr>rect = \<lparr>x0 = 0, y0 = 2, x1 = 30, y1 = 3\<rparr>\<rparr>,
                    \<lparr>rect = \<lparr>x0 = 0, y0 = 3, x1 = 40, y1 = 4\<rparr>\<rparr>,
                    \<lparr>rect = \<lparr>x0 = 0, y0 = 4, x1 = 50, y1 = 5\<rparr>\<rparr>],
            is_terminated_by_line = False\<rparr>]
   \<and> sum_list (map line_count
         [\<lparr>lines = [\<lparr>rect = \<lparr>x0 = 0, y0 = 0, x1 = 10, y1 = 1\<rparr>\<rparr>], is_terminated_by_line = False\<rparr>,
          \<lparr>lines = [\<lparr>rect = \<lparr>x0 = 0, y0 = 1, x1 = 20, y1 = 2\<rparr>\<rparr>], is_terminated_by_line = False\<rparr>,
          \<lparr>lines = [\<lparr>rect = \<lparr>x0 = 0, y0 = 2, x1 = 30, y1 = 3\<rparr>\<rparr>,
                    \<lparr>rect = \<lparr>x0 = 0, y0 = 3, x1 = 40, y1 = 4\<rparr>\<rparr>,
                    \<lparr>rect = \<lparr>x0 = 0, y0 = 4, x1 = 50, y1 = 5\<rparr>\<rparr>],
            is_terminated_by_line = False\<rparr>])
     = sum_list (map line_count
         [\<lparr>lines = [\<lparr>rect = \<lparr>x0 = 0, y0 = 0, x1 = 10, y1 = 1\<rparr>\<rparr>,
                  \<lparr>rect = \<lparr>x0 = 0, y0 = 1, x1 = 20, y1 = 2\<rparr>\<rparr>,
                  \<lparr>rect = \<lparr>x0 = 0, y0 = 2, x1 = 30, y1 = 3\<rparr>\<rparr>,
                  \<lparr>rect = \<lparr>x0 = 0, y0 = 3, x1 = 40, y1 = 4\<rparr>\<rparr>,
                  \<lparr>rect = \<lparr>x0 = 0, y0 = 4, x1 = 50, y1 = 5\<rparr>\<rparr>],
          is_terminated_by_line = False\<rparr>])"
proof -
  have run: "split_blocks_by_textline_length
       [\<lparr>lines = [\<lparr>rect = \<lparr>x0 = 0, y0 = 0, x1 = 10, y1 = 1\<rparr>\<rparr>,
                  \<lparr>rect = \<lparr>x0 = 0, y0 = 1, x1 = 20, y1 = 2\<rparr>\<rparr>,
                  \<lparr>rect = \<lparr>x0 = 0, y0 = 2, x1 = 30, y1 = 3\<rparr>\<rparr>,
                  \<lparr>rect = \<lparr>x0 = 0, y0 = 3, x1 = 40, y1 = 4\<rparr>\<rparr>,
                  \<lparr>rect = \<lparr>x0 = 0, y0 = 4, x1 = 50, y1 = 5\<rparr>\<rparr>],
          is_terminated_by_line = False\<rparr>]
       2
     = Inr [\<lparr>lines = [\<lparr>rect = \<lparr>x0 = 0, y0 = 0, x1 = 10, y1 = 1\<rparr>\<rparr>], is_terminated_by_line = False\<rparr>,
          \<lparr>lines = [\<lparr>rect = \<lparr>x0 = 0, y0 = 1, x1 = 20, y1 = 2\<rparr>\<rparr>], is_terminated_by_line = False\<rparr>,
          \<lparr>lines = [\<lparr>rect = \<lparr>x0 = 0, y0 = 2, x1 = 30, y1 = 3\<rparr>\<rparr>,
                    \<lparr>rect = \<lparr>x0 = 0, y0 = 3, x1 = 40, y1 = 4\<rparr>\<rparr>,
                    \<lparr>rect = \<lparr>x0 = 0, y0 = 4, x1 = 50, y1 = 5\<rparr>\<rparr>],
            is_terminated_by_line = False\<rparr>]"
    by (simp add: split_blocks_by_textline_length_def line_lengths_def py_slice_to_def
        split_block_step_def TextBlock_init_def numeral_2_eq_2)
  show ?thesis
    using split_blocks_by_textline_length_lines
      [of "[\<lparr>lines = [\<lparr>rect = \<lparr>x0 = 0, y0 = 0, x1 = 10, y1 = 1\<rparr>\<rparr>,
                  \<lparr>rect = \<lparr>x0 = 0, y0 = 1, x1 = 20, y1 = 2\<rparr>\<rparr>,
                  \<lparr>rect = \<lparr>x0 = 0, y0 = 2, x1 = 30, y1 = 3\<rparr>\<rparr>,
                  \<lparr>rect = \<lparr>x0 = 0, y0 = 3, x1 = 40, y1 = 4\<rparr>\<rparr>,
                  \<lparr>rect = \<lparr>x0 = 0, y0 = 4, x1 = 50, y1 = 5\<rparr>\<rparr>],
          is_terminated_by_line = False\<rparr>]" 2]
    unfolding run by simp
qed


section \<open>Reconciliation: the number of pairs\<close>








end
